theory Spec2Isabelle
  imports Complex_Main
begin

section \<open>Terminal dashboard: data and update function\<close>

text \<open>
  The dashboard client (the Bubble Tea program with the history view, and its older
  variant that is appended to the server's main.go) keeps a \<open>model\<close> value and
  transforms it with \<open>Update\<close>. Go's \<open>float64\<close> fields are modelled by \<open>real\<close>:
  comparisons are exact, rounding of the arithmetic is not modelled. Every price the
  client ever holds comes out of a JSON number, so it is finite and never NaN.
\<close>

record DashboardData =
  Symbol :: string
  CoinName :: string
  Price :: real
  PrevPrice :: real
  High :: real
  Low :: real
  MovingAverage :: real
  Change :: real
  ChangePercent :: real
  Connected :: bool
  Error :: string

record SymbolResponse =
  sr_Symbol :: string
  sr_Name :: string

record PriceResponse =
  pr_Price :: real

record StatsResponse =
  st_MovingAverage :: real
  st_High :: real
  st_Low :: real

record CoinInfo =
  coin_Symbol :: string
  coin_Name :: string

record HistoryTrade =
  trade_Symbol :: string
  trade_Price :: real
  trade_Timestamp :: int

datatype viewMode = dashboardView | coinSelectView | historyView

text \<open>The payload of \<open>tickMsg\<close> (a time) is never read, so it is left out.
  \<open>otherMsg\<close> stands for every message type the switch of \<open>Update\<close> has no case for.\<close>

datatype msg =
    KeyMsg string
  | tickMsg
  | dataMsg DashboardData
  | coinsMsg "CoinInfo list"
  | historyMsg "HistoryTrade list"
  | symbolChangedMsg
  | otherMsg

text \<open>Commands returned to the runtime; \<open>tea.Batch\<close> is a list, \<open>nil\<close> the empty list.\<close>

datatype cmd =
    CmdFetchData
  | CmdTick
  | CmdFetchCoins
  | CmdFetchHistory
  | CmdChangeSymbol string
  | CmdQuit

record model =
  mode :: viewMode
  data :: DashboardData
  history :: "real list"
  dbHistory :: "HistoryTrade list"
  quitting :: bool
  coins :: "CoinInfo list"
  coinCursor :: int
  switching :: bool
  historyScroll :: int

datatype panic = IndexOutOfRange

definition zeroData :: DashboardData where
  "zeroData = \<lparr>Symbol = [], CoinName = [], Price = 0, PrevPrice = 0, High = 0, Low = 0,
     MovingAverage = 0, Change = 0, ChangePercent = 0, Connected = False, Error = []\<rparr>"

definition initialModel :: model where
  "initialModel = \<lparr>mode = coinSelectView, data = zeroData, history = [], dbHistory = [],
     quitting = False, coins = [], coinCursor = 0, switching = False, historyScroll = 0\<rparr>"

subsection \<open>One poll: \<open>fetchData\<close>\<close>

text \<open>
  Each stage is an \<open>http.Get\<close> followed by a JSON decode. \<open>GetFailed\<close> is the error
  of \<open>http.Get\<close>; \<open>Response None\<close> is a response whose body does not decode (the code
  then leaves the stage's fields at zero and goes on); \<open>Response (Some v)\<close> decodes to \<open>v\<close>.
\<close>

datatype 'a response = GetFailed | Response "'a option"

text \<open>The first error text, \<^verbatim>\<open>Server not running. Start with 'make run'\<close>
  (a quote character is \<open>CHR 0x27\<close>).\<close>

definition serverNotRunning :: string where
  "serverNotRunning = ''Server not running. Start with '' @ [CHR 0x27] @ ''make run'' @ [CHR 0x27]"

definition fetchData ::
  "SymbolResponse response \<Rightarrow> PriceResponse response \<Rightarrow> StatsResponse response \<Rightarrow> DashboardData" where
  "fetchData symbolResp priceResp statsResp =
    (case symbolResp of
       GetFailed \<Rightarrow> zeroData\<lparr>Error := serverNotRunning\<rparr>
     | Response symbolData \<Rightarrow>
        (let d1 = (case symbolData of
                     None \<Rightarrow> zeroData
                   | Some s \<Rightarrow> zeroData\<lparr>Symbol := sr_Symbol s, CoinName := sr_Name s\<rparr>)
         in case priceResp of
              GetFailed \<Rightarrow> d1\<lparr>Error := ''Failed to fetch price''\<rparr>
            | Response priceData \<Rightarrow>
               (let d2 = (case priceData of
                            None \<Rightarrow> d1
                          | Some p \<Rightarrow> d1\<lparr>Price := pr_Price p\<rparr>)
                in case statsResp of
                     GetFailed \<Rightarrow> d2\<lparr>Error := ''Failed to fetch stats''\<rparr>
                   | Response statsData \<Rightarrow>
                      (let d3 = (case statsData of
                                   None \<Rightarrow> d2
                                 | Some st \<Rightarrow> d2\<lparr>MovingAverage := st_MovingAverage st,
                                              High := st_High st, Low := st_Low st\<rparr>)
                       in d3\<lparr>Connected := True\<rparr>))))"

subsection \<open>The update function\<close>

text \<open>The \<open>dataMsg\<close> case of \<open>Update\<close>, statement by statement.\<close>

definition resetHistoryOnSymbolChange :: "DashboardData \<Rightarrow> model \<Rightarrow> real list" where
  "resetHistoryOnSymbolChange newData m =
    (if Symbol (data m) \<noteq> [] \<and> Symbol (data m) \<noteq> Symbol newData then [] else history m)"

definition calculateChange :: "DashboardData \<Rightarrow> DashboardData \<Rightarrow> DashboardData" where
  "calculateChange old newData =
    (let n1 = (if Price old > 0 \<and> Price newData > 0 \<and> Symbol old = Symbol newData
               then (let c = Price newData - Price old
                     in newData\<lparr>Change := c, ChangePercent := (c / Price old) * 100\<rparr>)
               else newData)
     in n1\<lparr>PrevPrice := Price old\<rparr>)"

definition appendHistory :: "real \<Rightarrow> real list \<Rightarrow> real list" where
  "appendHistory p h =
    (if p > 0
     then (let h' = h @ [p] in if length h' > 20 then drop 1 h' else h')
     else h)"

definition updateData :: "DashboardData \<Rightarrow> model \<Rightarrow> model" where
  "updateData msgData m =
    (let h = resetHistoryOnSymbolChange msgData m;
         newData = calculateChange (data m) msgData
     in m\<lparr>data := newData, history := appendHistory (Price newData) h\<rparr>)"

text \<open>The loop of the \<open>coinsMsg\<close> case: the index of the first coin with the held symbol.\<close>

fun findCoin :: "string \<Rightarrow> CoinInfo list \<Rightarrow> int \<Rightarrow> int option" where
  "findCoin s [] i = None"
| "findCoin s (c # cs) i = (if coin_Symbol c = s then Some i else findCoin s cs (i + 1))"

definition updateKey :: "string \<Rightarrow> model \<Rightarrow> panic + model \<times> cmd list" where
  "updateKey k m =
    (case mode m of
       dashboardView \<Rightarrow>
        (if k = ''ctrl+c'' \<or> k = ''q'' then Inr (m\<lparr>quitting := True\<rparr>, [CmdQuit])
         else if k = ''c'' then Inr (m\<lparr>mode := coinSelectView, coinCursor := 0\<rparr>, [CmdFetchCoins])
         else if k = ''h'' then Inr (m\<lparr>mode := historyView, historyScroll := 0\<rparr>, [CmdFetchHistory])
         else Inr (m, []))
     | coinSelectView \<Rightarrow>
        (if k = ''ctrl+c'' \<or> k = ''q'' \<or> k = ''esc'' then Inr (m\<lparr>mode := dashboardView\<rparr>, [])
         else if k = ''up'' \<or> k = ''k''
           then Inr (if coinCursor m > 0 then m\<lparr>coinCursor := coinCursor m - 1\<rparr> else m, [])
         else if k = ''down'' \<or> k = ''j''
           then Inr (if coinCursor m < int (length (coins m)) - 1
                     then m\<lparr>coinCursor := coinCursor m + 1\<rparr> else m, [])
         else if k = ''enter'' \<or> k = '' ''
           then (if length (coins m) > 0
                 then (if 0 \<le> coinCursor m \<and> coinCursor m < int (length (coins m))
                       then Inr (m\<lparr>switching := True\<rparr>,
                                 [CmdChangeSymbol (coin_Symbol (coins m ! nat (coinCursor m)))])
                       else Inl IndexOutOfRange)
                 else Inr (m, []))
         else Inr (m, []))
     | historyView \<Rightarrow>
        (if k = ''ctrl+c'' \<or> k = ''q'' \<or> k = ''esc''
           then Inr (m\<lparr>mode := dashboardView\<rparr>, [CmdFetchData, CmdTick])
         else if k = ''up'' \<or> k = ''k''
           then Inr (if historyScroll m > 0 then m\<lparr>historyScroll := historyScroll m - 1\<rparr> else m, [])
         else if k = ''down'' \<or> k = ''j''
           then (let maxScroll = max 0 (int (length (dbHistory m)) - 15)
                 in Inr (if historyScroll m < maxScroll
                         then m\<lparr>historyScroll := historyScroll m + 1\<rparr> else m, []))
         else if k = ''r'' then Inr (m, [CmdFetchHistory])
         else Inr (m, [])))"

definition Update :: "msg \<Rightarrow> model \<Rightarrow> panic + model \<times> cmd list" where
  "Update message m =
    (case message of
       KeyMsg k \<Rightarrow> updateKey k m
     | tickMsg \<Rightarrow>
        (if mode m = dashboardView \<and> \<not> switching m then Inr (m, [CmdFetchData, CmdTick])
         else Inr (m, [CmdTick]))
     | dataMsg d \<Rightarrow> Inr (updateData d m, [])
     | coinsMsg cs \<Rightarrow>
        (let m1 = m\<lparr>coins := cs\<rparr>
         in Inr (case findCoin (Symbol (data m1)) cs 0 of
                   None \<Rightarrow> m1
                 | Some i \<Rightarrow> m1\<lparr>coinCursor := i\<rparr>, []))
     | historyMsg ts \<Rightarrow> Inr (m\<lparr>dbHistory := ts\<rparr>, [])
     | symbolChangedMsg \<Rightarrow>
        Inr (m\<lparr>switching := False, mode := dashboardView, history := []\<rparr>, [CmdFetchData, CmdTick])
     | otherMsg \<Rightarrow> Inr (m, []))"

subsection \<open>The older dashboard\<close>

text \<open>
  The dashboard program that is appended to the server's main.go is an older variant of
  the same program: it has no history view, it starts in the dashboard view, and after a
  swap it issues a poll without a new timer. Its \<open>fetchData\<close>, the \<open>dataMsg\<close> case of its
  \<open>Update\<close>, the first three branches of its \<open>viewDashboard\<close> and its \<open>renderSparkline\<close>
  are, line by line, those of the newer variant, so \<open>fetchData\<close>, \<open>updateData\<close> and
  \<open>renderSparkline\<close> above stand for both. Its view modes are the first two of
  \<open>viewMode\<close>; a model in \<open>historyView\<close> does not occur there.
\<close>

definition initialModelOld :: model where
  "initialModelOld = initialModel\<lparr>mode := dashboardView\<rparr>"

definition updateKeyOld :: "string \<Rightarrow> model \<Rightarrow> panic + model \<times> cmd list" where
  "updateKeyOld k m =
    (case mode m of
       dashboardView \<Rightarrow>
        (if k = ''ctrl+c'' \<or> k = ''q'' then Inr (m\<lparr>quitting := True\<rparr>, [CmdQuit])
         else if k = ''c'' then Inr (m\<lparr>mode := coinSelectView, coinCursor := 0\<rparr>, [CmdFetchCoins])
         else Inr (m, []))
     | coinSelectView \<Rightarrow>
        (if k = ''ctrl+c'' \<or> k = ''q'' \<or> k = ''esc'' then Inr (m\<lparr>mode := dashboardView\<rparr>, [])
         else if k = ''up'' \<or> k = ''k''
           then Inr (if coinCursor m > 0 then m\<lparr>coinCursor := coinCursor m - 1\<rparr> else m, [])
         else if k = ''down'' \<or> k = ''j''
           then Inr (if coinCursor m < int (length (coins m)) - 1
                     then m\<lparr>coinCursor := coinCursor m + 1\<rparr> else m, [])
         else if k = ''enter'' \<or> k = '' ''
           then (if length (coins m) > 0
                 then (if 0 \<le> coinCursor m \<and> coinCursor m < int (length (coins m))
                       then Inr (m\<lparr>switching := True\<rparr>,
                                 [CmdChangeSymbol (coin_Symbol (coins m ! nat (coinCursor m)))])
                       else Inl IndexOutOfRange)
                 else Inr (m, []))
         else Inr (m, []))
     | historyView \<Rightarrow> Inr (m, []))"

definition UpdateOld :: "msg \<Rightarrow> model \<Rightarrow> panic + model \<times> cmd list" where
  "UpdateOld message m =
    (case message of
       KeyMsg k \<Rightarrow> updateKeyOld k m
     | tickMsg \<Rightarrow>
        (if mode m = dashboardView \<and> \<not> switching m then Inr (m, [CmdFetchData, CmdTick])
         else Inr (m, [CmdTick]))
     | dataMsg d \<Rightarrow> Inr (updateData d m, [])
     | coinsMsg cs \<Rightarrow>
        (let m1 = m\<lparr>coins := cs\<rparr>
         in Inr (case findCoin (Symbol (data m1)) cs 0 of
                   None \<Rightarrow> m1
                 | Some i \<Rightarrow> m1\<lparr>coinCursor := i\<rparr>, []))
     | symbolChangedMsg \<Rightarrow>
        Inr (m\<lparr>switching := False, mode := dashboardView, history := []\<rparr>, [CmdFetchData])
     | _ \<Rightarrow> Inr (m, []))"

section \<open>Terminal dashboard: rendering\<close>

























text \<open>The invariant of the in-memory price history.\<close>

definition historyInv :: "real list \<Rightarrow> bool" where
  "historyInv h = (length h \<le> 20 \<and> list_all (\<lambda>x. 0 < x) h)"

subsection \<open>Concrete values used in the examples\<close>

definition okSymbol :: "string \<Rightarrow> string \<Rightarrow> SymbolResponse response" where
  "okSymbol s n = Response (Some \<lparr>sr_Symbol = s, sr_Name = n\<rparr>)"

definition okPrice :: "real \<Rightarrow> PriceResponse response" where
  "okPrice p = Response (Some \<lparr>pr_Price = p\<rparr>)"

definition okStats :: "real \<Rightarrow> real \<Rightarrow> real \<Rightarrow> StatsResponse response" where
  "okStats a h l = Response (Some \<lparr>st_MovingAverage = a, st_High = h, st_Low = l\<rparr>)"

text \<open>A dashboard that shows Bitcoin at 100 after one successful poll.\<close>

definition btc100 :: model where
  "btc100 = initialModel\<lparr>mode := dashboardView,
     data := zeroData\<lparr>Symbol := ''btcusdt'', CoinName := ''Bitcoin (BTC)'', Price := 100,
       Connected := True\<rparr>,
     history := [100]\<rparr>"

text \<open>The same dashboard with a full history of twenty prices.\<close>

definition full20 :: model where
  "full20 = btc100\<lparr>history := [1, 2, 3, 4, 5, 6, 7, 8, 9, 10, 11, 12, 13, 14, 15, 16, 17, 18, 19, 20]\<rparr>"

text \<open>The poll result when the server is down: the first stage fails.\<close>

definition serverDown :: DashboardData where
  "serverDown = fetchData GetFailed GetFailed GetFailed"

text \<open>A successful poll for Bitcoin at 105, and one for Ethereum at 3000.\<close>

definition btc105 :: DashboardData where
  "btc105 = fetchData (okSymbol ''btcusdt'' ''Bitcoin (BTC)'') (okPrice 105) (okStats 100 105 100)"

definition eth3000 :: DashboardData where
  "eth3000 = fetchData (okSymbol ''ethusdt'' ''Ethereum (ETH)'') (okPrice 3000) (okStats 3000 3000 3000)"

text \<open>The coin list of the server, and the Bitcoin dashboard while the user has just
  confirmed Ethereum in the coin selector (the swap request is in flight).\<close>

definition coinList :: "CoinInfo list" where
  "coinList =
    [\<lparr>coin_Symbol = ''btcusdt'', coin_Name = ''Bitcoin (BTC)''\<rparr>,
     \<lparr>coin_Symbol = ''ethusdt'', coin_Name = ''Ethereum (ETH)''\<rparr>,
     \<lparr>coin_Symbol = ''solusdt'', coin_Name = ''Solana (SOL)''\<rparr>,
     \<lparr>coin_Symbol = ''bnbusdt'', coin_Name = ''Binance Coin (BNB)''\<rparr>,
     \<lparr>coin_Symbol = ''xrpusdt'', coin_Name = ''Ripple (XRP)''\<rparr>,
     \<lparr>coin_Symbol = ''dogeusdt'', coin_Name = ''Dogecoin (DOGE)''\<rparr>]"

definition selectingEth :: model where
  "selectingEth = btc100\<lparr>mode := coinSelectView, coins := coinList, coinCursor := 1\<rparr>"

text \<open>The two models that follow when the user confirms Ethereum: the swap request has
  been sent, and the swap has been acknowledged.\<close>

definition swapSent :: model where
  "swapSent = selectingEth\<lparr>switching := True\<rparr>"

definition swapDone :: model where
  "swapDone = swapSent\<lparr>switching := False, mode := dashboardView, history := []\<rparr>"

subsection \<open>Sparkline levels\<close>





subsection \<open>The error screen\<close>



section \<open>Server: application state, price hub and symbol handler\<close>

text \<open>
  The server keeps the active symbol in an \<open>AppState\<close>, the latest price and the set of
  WebSocket clients in a \<open>Server\<close>, and running statistics in a C++ processor. Each of
  the methods below takes its own lock for its whole body, so each is one atomic step
  on the state of the process.
\<close>

record AppState =
  app_symbol :: string
  app_coinName :: string

text \<open>A WebSocket connection is identified by a number. \<open>clients\<close> holds the keys of the
  Go map \<open>clients\<close>, without repetition, in the order in which a \<open>range\<close> over the map
  visits them (Go leaves that order open; nothing below depends on it).\<close>

type_synonym conn = nat

record Server =
  currentPrice :: real
  clients :: "conn list"

text \<open>The feed client. \<open>b_conn\<close> is \<open>None\<close> for a nil connection, \<open>Some True\<close> for an open
  one and \<open>Some False\<close> for one that has been closed; \<open>b_restart\<close> says whether the
  channel \<open>restart\<close>, of capacity 1, holds a signal.\<close>

record BinanceClient =
  b_symbol :: string
  b_conn :: "bool option"
  b_restart :: bool

text \<open>The calls the symbol handler makes, in the order in which it makes them.\<close>

datatype call =
    CallSetSymbol string string
  | CallResetProcessor
  | CallResetPrice
  | CallChangeSymbol string

text \<open>
  The state of the server process. \<open>goroutines\<close> lists the calls \<open>go s.removeClient(c)\<close>
  that have been started and have not run yet; \<open>writes\<close> lists every \<open>WriteMessage\<close> to
  a client, with the price sent; \<open>closedConns\<close> the client connections the server has closed;
  \<open>calls\<close> the calls of the symbol handler. The last three record effects only, no
  code reads them.
\<close>

record World =
  appState :: AppState
  processor :: "real list"
  server :: Server
  binanceClient :: BinanceClient
  goroutines :: "conn list"
  writes :: "(conn \<times> real) list"
  closedConns :: "conn list"
  calls :: "call list"

subsection \<open>The statistics engine\<close>


definition ResetProcessor :: "World \<Rightarrow> World" where
  "ResetProcessor w = w\<lparr>processor := [], calls := calls w @ [CallResetProcessor]\<rparr>"

subsection \<open>The coin catalogue\<close>

text \<open>The list served by \<open>/api/coins\<close>.\<close>

definition CoinCatalog :: "(string \<times> string) list" where
  "CoinCatalog =
    [(''btcusdt'', ''Bitcoin (BTC)''),
     (''ethusdt'', ''Ethereum (ETH)''),
     (''solusdt'', ''Solana (SOL)''),
     (''bnbusdt'', ''Binance Coin (BNB)''),
     (''xrpusdt'', ''Ripple (XRP)''),
     (''dogeusdt'', ''Dogecoin (DOGE)'')]"

text \<open>
  Modelled from the spec: the function \<open>GetCoinName\<close> that the handler calls is not among
  the sources. The specification validates a symbol against the catalogue, and the
  handler takes a name equal to the symbol as the answer for an unknown symbol, so
  \<open>GetCoinName\<close> is the display name of a catalogued symbol and the symbol itself
  otherwise.
\<close>

definition GetCoinName :: "string \<Rightarrow> string" where
  "GetCoinName s = (case map_of CoinCatalog s of Some n \<Rightarrow> n | None \<Rightarrow> s)"

subsection \<open>Methods of \<open>AppState\<close>, \<open>Server\<close> and \<open>BinanceClient\<close>\<close>

definition SetSymbol :: "string \<Rightarrow> string \<Rightarrow> World \<Rightarrow> World" where
  "SetSymbol s n w =
    w\<lparr>appState := \<lparr>app_symbol = s, app_coinName = n\<rparr>, calls := calls w @ [CallSetSymbol s n]\<rparr>"

definition ResetPrice :: "World \<Rightarrow> World" where
  "ResetPrice w =
    w\<lparr>server := (server w)\<lparr>currentPrice := 0\<rparr>, calls := calls w @ [CallResetPrice]\<rparr>"


text \<open>\<open>ChangeSymbol\<close> has two parts: under the lock it stores the symbol and closes the
  connection if there is one; then it sends on \<open>restart\<close> without blocking, which leaves
  a signal in the channel whether or not one was there.\<close>

definition setSymbolAndClose :: "string \<Rightarrow> BinanceClient \<Rightarrow> BinanceClient" where
  "setSymbolAndClose newSymbol b =
    b\<lparr>b_symbol := newSymbol,
      b_conn := (case b_conn b of None \<Rightarrow> None | Some _ \<Rightarrow> Some False)\<rparr>"

definition signalRestart :: "BinanceClient \<Rightarrow> BinanceClient" where
  "signalRestart b = b\<lparr>b_restart := True\<rparr>"

definition clientChangeSymbol :: "string \<Rightarrow> BinanceClient \<Rightarrow> BinanceClient" where
  "clientChangeSymbol newSymbol b = signalRestart (setSymbolAndClose newSymbol b)"

definition ChangeSymbol :: "string \<Rightarrow> World \<Rightarrow> World" where
  "ChangeSymbol newSymbol w =
    w\<lparr>binanceClient := clientChangeSymbol newSymbol (binanceClient w),
      calls := calls w @ [CallChangeSymbol newSymbol]\<rparr>"

subsection \<open>The handler of \<open>/api/symbol\<close>\<close>

text \<open>A request is a GET, or a POST whose body decodes to a symbol (\<open>Some\<close>) or does
  not decode (\<open>None\<close>). The answer is the JSON object with symbol and name, or an error
  with status 400 and its text.\<close>

datatype request = Get | Post "string option"

datatype reply = Json string string | BadRequest string

definition handleSymbol :: "request \<Rightarrow> World \<Rightarrow> World \<times> reply" where
  "handleSymbol r w =
    (case r of
       Post body \<Rightarrow>
        (case body of
           None \<Rightarrow> (w, BadRequest ''Invalid request'')
         | Some reqSymbol \<Rightarrow>
            (let newName = GetCoinName reqSymbol
             in if newName = reqSymbol then (w, BadRequest ''Unknown symbol'')
                else (let w1 = SetSymbol reqSymbol newName w;
                          w2 = ResetProcessor w1;
                          w3 = ResetPrice w2;
                          w4 = ChangeSymbol reqSymbol w3
                      in (w4, Json reqSymbol newName))))
     | Get \<Rightarrow> (w, Json (app_symbol (appState w)) (app_coinName (appState w))))"

subsection \<open>Broadcast\<close>





text \<open>\<open>HandleWebSocket\<close> registers a new connection: \<open>s.clients[conn] = true\<close>.\<close>

definition addClient :: "conn \<Rightarrow> World \<Rightarrow> World" where
  "addClient c w = w\<lparr>server := (server w)\<lparr>clients := List.insert c (clients (server w))\<rparr>\<rparr>"


subsection \<open>Concrete server states used in the examples\<close>

definition world0 :: World where
  "world0 =
    \<lparr>appState = \<lparr>app_symbol = ''btcusdt'', app_coinName = ''Bitcoin (BTC)''\<rparr>,
     processor = [50000, 50010],
     server = \<lparr>currentPrice = 50010, clients = [1, 2]\<rparr>,
     binanceClient = \<lparr>b_symbol = ''btcusdt'', b_conn = Some True, b_restart = False\<rparr>,
     goroutines = [], writes = [], closedConns = [], calls = []\<rparr>"


section \<open>Feed client: the connect, stream and retry loop\<close>

text \<open>
  \<open>Run\<close> never returns. It is modelled as a machine that takes one event of its
  environment at a time; \<open>pc\<close> is the point of the loop at which the goroutine waits:
  at the top of the loop, in \<open>Dial\<close> (with the URL built from the symbol read at the
  top), or in \<open>ReadMessage\<close> inside \<open>readMessages\<close>.
\<close>

datatype pc = LoopTop | Dialing string | Reading

text \<open>What one call of \<open>conn.ReadMessage\<close> and the decoding of its message give: a read
  error, a message that \<open>json.Unmarshal\<close> rejects, or a trade with its price string \<open>p\<close>
  and its time \<open>T\<close> in milliseconds.\<close>

datatype frame = ReadError | Undecodable | Trade string int

text \<open>\<open>time.UnixMilli(T)\<close> is the instant \<open>T\<close> milliseconds after the epoch; an instant
  is modelled by that number.\<close>

record PriceUpdate =
  upd_Price :: real
  upd_Time :: int

text \<open>
  The two conversions of the price string belong to Go's library and are parameters of
  the model: \<open>numberFloat64 s\<close> is \<open>json.Number(s).Float64()\<close> and \<open>unmarshalFloat64 s\<close>
  is \<open>json.Unmarshal([]byte(s), &price)\<close>; \<open>None\<close> is an error.
\<close>

record decoders =
  numberFloat64 :: "string \<Rightarrow> real option"
  unmarshalFloat64 :: "string \<Rightarrow> real option"

text \<open>The price of a trade: the variable starts at zero and is assigned only when the
  first conversion succeeds and the second one does too.\<close>

definition parsePrice :: "decoders \<Rightarrow> string \<Rightarrow> real" where
  "parsePrice dec s =
    (case numberFloat64 dec s of
       None \<Rightarrow> 0
     | Some _ \<Rightarrow> (case unmarshalFloat64 dec s of None \<Rightarrow> 0 | Some v \<Rightarrow> v))"

text \<open>What the loop does besides changing its state: it dials a URL and it sleeps for a
  number of seconds.\<close>

datatype action = Dial string | Sleep nat

text \<open>\<open>priceChan\<close> lists the updates sent on the channel, oldest first.\<close>

record Feed =
  client :: BinanceClient
  pc :: pc
  priceChan :: "PriceUpdate list"
  actions :: "action list"

text \<open>
  The events: the loop reads the symbol at its top; the dial fails or succeeds; a read
  returns a frame; and, from another goroutine, the two parts of \<open>ChangeSymbol\<close>.
\<close>

datatype event =
    ReadSymbol
  | DialFails
  | DialSucceeds
  | Receive frame
  | LockedChange string
  | SendRestart

definition url :: "string \<Rightarrow> string" where
  "url symbol = ''wss://stream.binance.com:9443/ws/'' @ symbol @ ''@trade''"

text \<open>The body of \<open>readMessages\<close> for one frame that is not a read error.\<close>

definition readMessage :: "decoders \<Rightarrow> frame \<Rightarrow> Feed \<Rightarrow> Feed" where
  "readMessage dec fr f =
    (case fr of
       Trade p T \<Rightarrow>
        (let price = parsePrice dec p
         in if price > 0
            then f\<lparr>priceChan := priceChan f @ [\<lparr>upd_Price = price, upd_Time = T\<rparr>]\<rparr>
            else f)
     | _ \<Rightarrow> f)"

text \<open>After \<open>readMessages\<close> has returned: close the connection, then take the restart
  signal if there is one, and sleep two seconds if there is none.\<close>

definition afterStream :: "Feed \<Rightarrow> Feed" where
  "afterStream f =
    (let f1 = f\<lparr>client := (client f)\<lparr>b_conn := Some False\<rparr>\<rparr>
     in if b_restart (client f1)
        then f1\<lparr>client := (client f1)\<lparr>b_restart := False\<rparr>, pc := LoopTop\<rparr>
        else f1\<lparr>pc := LoopTop, actions := actions f1 @ [Sleep 2]\<rparr>)"

text \<open>One event. An event that cannot occur at the current point of the loop leaves the
  state as it is.\<close>

definition runStep :: "decoders \<Rightarrow> event \<Rightarrow> Feed \<Rightarrow> Feed" where
  "runStep dec ev f =
    (case ev of
       ReadSymbol \<Rightarrow>
        (case pc f of LoopTop \<Rightarrow> f\<lparr>pc := Dialing (url (b_symbol (client f)))\<rparr> | _ \<Rightarrow> f)
     | DialFails \<Rightarrow>
        (case pc f of
           Dialing u \<Rightarrow> f\<lparr>pc := LoopTop, actions := actions f @ [Dial u, Sleep 5]\<rparr>
         | _ \<Rightarrow> f)
     | DialSucceeds \<Rightarrow>
        (case pc f of
           Dialing u \<Rightarrow> f\<lparr>client := (client f)\<lparr>b_conn := Some True\<rparr>, pc := Reading,
                         actions := actions f @ [Dial u]\<rparr>
         | _ \<Rightarrow> f)
     | Receive fr \<Rightarrow>
        (case pc f of
           Reading \<Rightarrow> (case fr of ReadError \<Rightarrow> afterStream f | _ \<Rightarrow> readMessage dec fr f)
         | _ \<Rightarrow> f)
     | LockedChange newSymbol \<Rightarrow> f\<lparr>client := setSymbolAndClose newSymbol (client f)\<rparr>
     | SendRestart \<Rightarrow> f\<lparr>client := signalRestart (client f)\<rparr>)"

definition Run :: "decoders \<Rightarrow> event list \<Rightarrow> Feed \<Rightarrow> Feed" where
  "Run dec evs f = fold (runStep dec) evs f"

text \<open>The updates a list of frames gives rise to, in order.\<close>

definition updatesOf :: "decoders \<Rightarrow> frame list \<Rightarrow> PriceUpdate list" where
  "updatesOf dec frs =
    concat (map (\<lambda>fr. case fr of
                        Trade p T \<Rightarrow> (if parsePrice dec p > 0
                                      then [\<lparr>upd_Price = parsePrice dec p, upd_Time = T\<rparr>] else [])
                      | _ \<Rightarrow> []) frs)"

subsection \<open>Concrete feed states used in the examples\<close>

text \<open>A decoder table that knows three price strings.\<close>

definition tableFloat :: "string \<Rightarrow> real option" where
  "tableFloat s =
    (if s = ''67000.50'' then Some 67000.5
     else if s = ''0.00'' then Some 0
     else if s = ''-1'' then Some (- 1)
     else None)"

definition tableDecoders :: decoders where
  "tableDecoders = \<lparr>numberFloat64 = tableFloat, unmarshalFloat64 = tableFloat\<rparr>"

definition feed0 :: Feed where
  "feed0 = \<lparr>client = \<lparr>b_symbol = ''btcusdt'', b_conn = None, b_restart = False\<rparr>,
             pc = LoopTop, priceChan = [], actions = []\<rparr>"

definition streaming :: Feed where
  "streaming = \<lparr>client = \<lparr>b_symbol = ''btcusdt'', b_conn = Some True, b_restart = False\<rparr>,
                 pc = Reading, priceChan = [], actions = [Dial (url ''btcusdt'')]\<rparr>"

text \<open>The loop while it dials Bitcoin, and a streaming client after a call of
  \<open>ChangeSymbol\<close> for Ethereum.\<close>

definition dialling :: Feed where
  "dialling = feed0\<lparr>pc := Dialing (url ''btcusdt'')\<rparr>"

definition swapped :: Feed where
  "swapped = streaming\<lparr>client := \<lparr>b_symbol = ''ethusdt'', b_conn = Some False, b_restart = True\<rparr>\<rparr>"

text \<open>Six frames: two good trades and four that must be dropped.\<close>

definition someFrames :: "frame list" where
  "someFrames =
    [Trade ''67000.50'' 1700000000000, Undecodable, Trade ''0.00'' 1700000000001,
     Trade ''abc'' 1700000000002, Trade ''-1'' 1700000000003, Trade ''67000.50'' 1700000000004]"

section \<open>Properties of the dashboard\<close>

lemma calculateChange_Price [simp]: "Price (calculateChange old d) = Price d"
  by (simp add: calculateChange_def Let_def)

lemma fetchData_Change [simp]:
  "Change (fetchData symbolResp priceResp statsResp) = 0"
  "ChangePercent (fetchData symbolResp priceResp statsResp) = 0"
  by (simp_all add: fetchData_def zeroData_def Let_def split: response.splits option.splits)

lemma updateData_Change:
  "Change (data (updateData d m)) =
     (if Price (data m) > 0 \<and> Price d > 0 \<and> Symbol (data m) = Symbol d
      then Price d - Price (data m) else Change d)"
  "ChangePercent (data (updateData d m)) =
     (if Price (data m) > 0 \<and> Price d > 0 \<and> Symbol (data m) = Symbol d
      then ((Price d - Price (data m)) / Price (data m)) * 100 else ChangePercent d)"
  by (simp_all add: updateData_def calculateChange_def Let_def)

text \<open>
  Claim C8. A poll result \<open>d\<close> is what \<open>fetchData\<close> returns, and the previous reading is
  the snapshot \<open>data m\<close> the model holds. \<open>Update\<close> computes change and percent change
  (in both variants of the dashboard) exactly when the held price and the new price are both strictly positive and the two
  symbols are equal: then change is the new price minus the previous one and the percent
  change is change divided by the previous price, times 100. In every other case both
  are reported as zero, whatever the two prices are. The previous price is always
  recorded in \<open>PrevPrice\<close>.
\<close>

theorem change_computation:
  "(let d = fetchData symbolResp priceResp statsResp;
        computed = (Price (data m) > 0 \<and> Price d > 0 \<and> Symbol (data m) = Symbol d);
        change = (if computed then Price d - Price (data m) else 0)
    in Update (dataMsg d) m = Inr (updateData d m, [])
     \<and> UpdateOld (dataMsg d) m = Inr (updateData d m, [])
     \<and> Change (data (updateData d m)) = change
     \<and> ChangePercent (data (updateData d m)) =
          (if computed then (change / Price (data m)) * 100 else 0)
     \<and> PrevPrice (data (updateData d m)) = Price (data m))"
  by (simp add: Let_def Update_def UpdateOld_def updateData_Change)
     (simp add: updateData_def calculateChange_def Let_def)

text \<open>The example of the specification: 100 then 105 on the same symbol gives change 5
  and 5 percent; 100 on Bitcoin then 105 on Ethereum gives change 0.\<close>

theorem change_computation_example:
  "Change (data (updateData (fetchData (okSymbol ''btcusdt'' ''Bitcoin (BTC)'') (okPrice 105)
      (okStats 100 105 100)) btc100)) = 5
 \<and> ChangePercent (data (updateData (fetchData (okSymbol ''btcusdt'' ''Bitcoin (BTC)'') (okPrice 105)
      (okStats 100 105 100)) btc100)) = 5
 \<and> Change (data (updateData (fetchData (okSymbol ''ethusdt'' ''Ethereum (ETH)'') (okPrice 105)
      (okStats 100 105 100)) btc100)) = 0"
  using change_computation [of "okSymbol ''btcusdt'' ''Bitcoin (BTC)''" "okPrice 105"
      "okStats 100 105 100" btc100]
    change_computation [of "okSymbol ''ethusdt'' ''Ethereum (ETH)''" "okPrice 105"
      "okStats 100 105 100" btc100]
  by (simp add: Let_def fetchData_def okSymbol_def okPrice_def okStats_def btc100_def
      zeroData_def initialModel_def)

subsection \<open>The bounded history\<close>

lemma appendHistory_inv: "historyInv h \<Longrightarrow> historyInv (appendHistory p h)"
  by (auto simp: historyInv_def appendHistory_def Let_def list_all_iff dest: in_set_dropD)

lemma resetHistory_inv: "historyInv (history m) \<Longrightarrow> historyInv (resetHistoryOnSymbolChange d m)"
  by (simp add: resetHistoryOnSymbolChange_def historyInv_def)

lemma updateData_inv: "historyInv (history m) \<Longrightarrow> historyInv (history (updateData d m))"
  by (simp add: updateData_def Let_def appendHistory_inv resetHistory_inv)

lemma appendHistory_evict:
  "length h \<le> 20 \<Longrightarrow> 0 < p \<Longrightarrow>
     appendHistory p h = (if length h < 20 then h @ [p] else tl h @ [p])"
  by (cases h) (auto simp: appendHistory_def Let_def)

text \<open>A key press changes neither the history nor the snapshot.\<close>

lemma updateKey_keeps:
  "(case updateKey k m of Inl e \<Rightarrow> True
    | Inr r \<Rightarrow> history (fst r) = history m \<and> data (fst r) = data m)"
  by (simp add: updateKey_def Let_def split: viewMode.split)

lemma updateKey_history:
  "updateKey k m = Inr (m', cs) \<Longrightarrow> history m' = history m \<and> data m' = data m"
  using updateKey_keeps [where k = k and m = m] by simp

lemma Update_inv:
  assumes "historyInv (history m)" and "Update message m = Inr (m', cs)"
  shows "historyInv (history m')"
proof (cases message)
  case (KeyMsg k)
  with assms show ?thesis by (simp add: Update_def updateKey_history)
next
  case (dataMsg d)
  with assms show ?thesis by (auto simp: Update_def updateData_inv)
next
  case (coinsMsg cs)
  with assms show ?thesis by (auto simp: Update_def Let_def split: option.splits)
qed (use assms in \<open>auto simp: Update_def historyInv_def split: if_splits\<close>)

lemma updateKeyOld_keeps:
  "(case updateKeyOld k m of Inl e \<Rightarrow> True
    | Inr r \<Rightarrow> history (fst r) = history m \<and> data (fst r) = data m)"
  by (simp add: updateKeyOld_def Let_def split: viewMode.split)

lemma updateKeyOld_history:
  "updateKeyOld k m = Inr (m', cs) \<Longrightarrow> history m' = history m \<and> data m' = data m"
  using updateKeyOld_keeps [where k = k and m = m] by simp

lemma UpdateOld_inv:
  assumes "historyInv (history m)" and "UpdateOld message m = Inr (m', cs)"
  shows "historyInv (history m')"
proof (cases message)
  case (KeyMsg k)
  with assms show ?thesis by (simp add: UpdateOld_def updateKeyOld_history)
next
  case (dataMsg d)
  with assms show ?thesis by (auto simp: UpdateOld_def updateData_inv)
next
  case (coinsMsg cs)
  with assms show ?thesis by (auto simp: UpdateOld_def Let_def split: option.splits)
qed (use assms in \<open>auto simp: UpdateOld_def historyInv_def split: if_splits\<close>)

lemma initialModel_inv: "historyInv (history initialModel) \<and> historyInv (history initialModelOld)"
  by (simp add: initialModel_def initialModelOld_def historyInv_def)

text \<open>
  Claim C10, as the code has it. The history starts empty. Every step of \<open>Update\<close>
  (of either variant of the dashboard) that returns keeps the history at no more than 20 entries, all strictly positive. A
  poll result whose price is not positive is never appended: the history stays as it is
  when the result's symbol is the held symbol or the held symbol is empty, and it is
  cleared when the result carries another symbol. A poll result with a positive price is
  appended at the end (after the same clearing), and when the history already has 20
  entries exactly the oldest one is dropped.
\<close>

theorem history_invariant:
  assumes "historyInv (history m)"
  shows "(\<forall>message m' cs. Update message m = Inr (m', cs) \<longrightarrow> historyInv (history m'))
    \<and> (\<forall>message m' cs. UpdateOld message m = Inr (m', cs) \<longrightarrow> historyInv (history m'))
    \<and> (\<forall>d::DashboardData. \<not> 0 < Price d \<longrightarrow>
          history (updateData d m) =
            (if Symbol (data m) \<noteq> [] \<and> Symbol (data m) \<noteq> Symbol d then [] else history m))
    \<and> (\<forall>d::DashboardData. 0 < Price d \<longrightarrow>
          history (updateData d m) =
            (let h = (if Symbol (data m) \<noteq> [] \<and> Symbol (data m) \<noteq> Symbol d then [] else history m)
             in if length h < 20 then h @ [Price d] else tl h @ [Price d]))"
proof (intro conjI allI impI)
  fix message m' cs assume "Update message m = Inr (m', cs)"
  with assms show "historyInv (history m')" by (rule Update_inv)
next
  fix message m' cs assume "UpdateOld message m = Inr (m', cs)"
  with assms show "historyInv (history m')" by (rule UpdateOld_inv)
next
  fix d :: DashboardData assume "\<not> 0 < Price d"
  then show "history (updateData d m) =
      (if Symbol (data m) \<noteq> [] \<and> Symbol (data m) \<noteq> Symbol d then [] else history m)"
    by (simp add: updateData_def Let_def appendHistory_def resetHistoryOnSymbolChange_def)
next
  fix d :: DashboardData assume p: "0 < Price d"
  have "length (resetHistoryOnSymbolChange d m) \<le> 20"
    using resetHistory_inv [OF assms] by (simp add: historyInv_def)
  from appendHistory_evict [OF this p] show "history (updateData d m) =
      (let h = (if Symbol (data m) \<noteq> [] \<and> Symbol (data m) \<noteq> Symbol d then [] else history m)
       in if length h < 20 then h @ [Price d] else tl h @ [Price d])"
    by (simp add: updateData_def Let_def resetHistoryOnSymbolChange_def)
qed

text \<open>On a full history of 1 to 20, a Bitcoin poll at 105 drops the 1 and appends 105.\<close>

theorem history_invariant_witness:
  "historyInv (history full20)
 \<and> Update (dataMsg btc105) full20 = Inr (updateData btc105 full20, [])
 \<and> historyInv (history (updateData btc105 full20))
 \<and> history (updateData btc105 full20) =
      [2, 3, 4, 5, 6, 7, 8, 9, 10, 11, 12, 13, 14, 15, 16, 17, 18, 19, 20, 105]"
proof -
  have inv: "historyInv (history full20)"
    by (simp add: full20_def historyInv_def)
  have p: "Price btc105 = 105" "Symbol btc105 = ''btcusdt''"
    by (simp_all add: btc105_def fetchData_def okSymbol_def okPrice_def okStats_def zeroData_def)
  have u: "Update (dataMsg btc105) full20 = Inr (updateData btc105 full20, [])"
    by (simp add: Update_def)
  note h = history_invariant [OF inv]
  from h u have i: "historyInv (history (updateData btc105 full20))"
    by blast
  have "0 < Price btc105"
    by (simp add: p)
  with h have "history (updateData btc105 full20) =
      (let h = (if Symbol (data full20) \<noteq> [] \<and> Symbol (data full20) \<noteq> Symbol btc105
                then [] else history full20)
       in if length h < 20 then h @ [Price btc105] else tl h @ [Price btc105])"
    by blast
  then have "history (updateData btc105 full20) =
      [2, 3, 4, 5, 6, 7, 8, 9, 10, 11, 12, 13, 14, 15, 16, 17, 18, 19, 20, 105]"
    by (simp add: p full20_def btc100_def)
  with inv u i show ?thesis
    by simp
qed

text \<open>
  The claim as written says that a non-positive price leaves the history completely
  unchanged. When the server is down the poll result has price 0 and an empty symbol;
  on a dashboard that holds Bitcoin with history \<open>[100]\<close> the update clears the history.
\<close>

theorem history_unchanged_counterexample:
  "Price serverDown = 0
 \<and> history btc100 = [100]
 \<and> Update (dataMsg serverDown) btc100 = Inr (updateData serverDown btc100, [])
 \<and> history (updateData serverDown btc100) = []
 \<and> history (updateData serverDown btc100) \<noteq> history btc100"
  by (simp add: serverDown_def fetchData_def zeroData_def btc100_def initialModel_def
      Update_def updateData_def calculateChange_def resetHistoryOnSymbolChange_def
      appendHistory_def Let_def)

subsection \<open>Poll results that arrive after a swap\<close>

text \<open>
  Claim C6, as the code has it. \<open>Update\<close> (of either variant of the dashboard) has no
  staleness check and the model does not hold the symbol that was swapped to. Every poll
  result replaces the held snapshot, whatever its symbol: the new snapshot is the result
  itself with the previous price recorded, and with change and percent change computed
  when both prices are positive and the symbols agree; its price is appended to the
  history by the usual rule; nothing else of the model changes. In particular a result
  whose symbol differs from the held symbol is applied as delivered, with only
  \<open>PrevPrice\<close> recomputed, and the history restarts from that result (it is kept only
  when the held symbol was empty).
\<close>

theorem stale_result_applied:
  "Update (dataMsg d) m = Inr (updateData d m, [])
 \<and> UpdateOld (dataMsg d) m = Inr (updateData d m, [])
 \<and> updateData d m =
      m\<lparr>data := data (updateData d m), history := history (updateData d m)\<rparr>
 \<and> data (updateData d m) =
      (if Price (data m) > 0 \<and> Price d > 0 \<and> Symbol (data m) = Symbol d
       then d\<lparr>Change := Price d - Price (data m),
              ChangePercent := ((Price d - Price (data m)) / Price (data m)) * 100,
              PrevPrice := Price (data m)\<rparr>
       else d\<lparr>PrevPrice := Price (data m)\<rparr>)
 \<and> history (updateData d m) =
      appendHistory (Price d)
        (if Symbol (data m) \<noteq> [] \<and> Symbol (data m) \<noteq> Symbol d then [] else history m)
 \<and> (Symbol d \<noteq> Symbol (data m) \<longrightarrow>
        data (updateData d m) = d\<lparr>PrevPrice := Price (data m)\<rparr>
      \<and> history (updateData d m) =
          appendHistory (Price d) (if Symbol (data m) = [] then history m else []))"
  by (auto simp: Update_def UpdateOld_def updateData_def calculateChange_def
      resetHistoryOnSymbolChange_def Let_def)

text \<open>Both kinds of result are applied: an Ethereum result on a dashboard that holds
  Bitcoin, and the Bitcoin result that arrives after the swap to Ethereum has been
  acknowledged.\<close>

theorem stale_result_applied_witness:
  "Symbol eth3000 \<noteq> Symbol (data btc100)
 \<and> Update (dataMsg eth3000) btc100 = Inr (updateData eth3000 btc100, [])
 \<and> data (updateData eth3000 btc100) = eth3000\<lparr>PrevPrice := 100\<rparr>
 \<and> history (updateData eth3000 btc100) = [3000]
 \<and> Symbol btc105 = Symbol (data swapDone)
 \<and> Update (dataMsg btc105) swapDone = Inr (updateData btc105 swapDone, [])
 \<and> data (updateData btc105 swapDone) =
      btc105\<lparr>Change := 5, ChangePercent := 5, PrevPrice := 100\<rparr>
 \<and> history (updateData btc105 swapDone) = [105]"
proof -
  have ne: "Symbol eth3000 \<noteq> Symbol (data btc100)"
    by (simp add: eth3000_def fetchData_def okSymbol_def okPrice_def okStats_def zeroData_def
        btc100_def)
  have p: "Price eth3000 = 3000" "Price btc105 = 105" "Symbol btc105 = ''btcusdt''"
    by (simp_all add: eth3000_def btc105_def fetchData_def okSymbol_def okPrice_def okStats_def
        zeroData_def)
  have q: "Price (data btc100) = 100" "Symbol (data btc100) = ''btcusdt''" "history btc100 = [100]"
    by (simp_all add: btc100_def)
  have r: "Price (data swapDone) = 100" "Symbol (data swapDone) = ''btcusdt''"
    "history swapDone = []"
    by (simp_all add: swapDone_def swapSent_def selectingEth_def btc100_def)
  note a = stale_result_applied [of eth3000 btc100]
  note b = stale_result_applied [of btc105 swapDone]
  from a ne have a1: "Update (dataMsg eth3000) btc100 = Inr (updateData eth3000 btc100, [])"
    and a2: "data (updateData eth3000 btc100) = eth3000\<lparr>PrevPrice := Price (data btc100)\<rparr>"
    and a3: "history (updateData eth3000 btc100) =
          appendHistory (Price eth3000) (if Symbol (data btc100) = [] then history btc100 else [])"
    by blast+
  from b have b1: "Update (dataMsg btc105) swapDone = Inr (updateData btc105 swapDone, [])"
    and b2: "data (updateData btc105 swapDone) =
      (if Price (data swapDone) > 0 \<and> Price btc105 > 0 \<and> Symbol (data swapDone) = Symbol btc105
       then btc105\<lparr>Change := Price btc105 - Price (data swapDone),
              ChangePercent := ((Price btc105 - Price (data swapDone)) / Price (data swapDone)) * 100,
              PrevPrice := Price (data swapDone)\<rparr>
       else btc105\<lparr>PrevPrice := Price (data swapDone)\<rparr>)"
    and b3: "history (updateData btc105 swapDone) =
      appendHistory (Price btc105)
        (if Symbol (data swapDone) \<noteq> [] \<and> Symbol (data swapDone) \<noteq> Symbol btc105
         then [] else history swapDone)"
    by blast+
  have a2': "data (updateData eth3000 btc100) = eth3000\<lparr>PrevPrice := 100\<rparr>"
    using a2 by (simp add: q)
  have a3': "history (updateData eth3000 btc100) = [3000]"
    using a3 by (simp add: p q appendHistory_def)
  have b2': "data (updateData btc105 swapDone) =
      btc105\<lparr>Change := 5, ChangePercent := 5, PrevPrice := 100\<rparr>"
    using b2 by (simp add: p r)
  have b3': "history (updateData btc105 swapDone) = [105]"
    using b3 by (simp add: p r appendHistory_def)
  have s: "Symbol btc105 = Symbol (data swapDone)"
    by (simp add: p r)
  from ne a1 a2' a3' s b1 b2' b3' show ?thesis
    by blast
qed

text \<open>
  The claim as written fails. The user confirms Ethereum on a Bitcoin dashboard; the
  swap is acknowledged (\<open>symbolChangedMsg\<close>) and the history is cleared; then a poll
  result that was issued before the swap arrives, still carrying Bitcoin at 105. It is
  applied: the snapshot shows Bitcoin at 105 and the fresh history holds the Bitcoin
  price. Read against the held symbol instead, the claim fails as well: an Ethereum
  result on a dashboard that holds Bitcoin is applied, not discarded.
\<close>

theorem stale_result_counterexample:
  "Update (KeyMsg ''enter'') selectingEth = Inr (swapSent, [CmdChangeSymbol ''ethusdt''])
 \<and> Update symbolChangedMsg swapSent = Inr (swapDone, [CmdFetchData, CmdTick])
 \<and> Symbol btc105 = ''btcusdt''
 \<and> Update (dataMsg btc105) swapDone =
      Inr (swapDone\<lparr>data := btc105\<lparr>Change := 5, ChangePercent := 5, PrevPrice := 100\<rparr>,
                     history := [105]\<rparr>, [])
 \<and> Update (dataMsg btc105) swapDone \<noteq> Inr (swapDone, [])
 \<and> Symbol eth3000 \<noteq> Symbol (data btc100)
 \<and> Update (dataMsg eth3000) btc100 \<noteq> Inr (btc100, [])"
  by (simp add: Update_def updateKey_def swapSent_def swapDone_def selectingEth_def btc100_def
      coinList_def initialModel_def btc105_def eth3000_def fetchData_def okSymbol_def okPrice_def
      okStats_def zeroData_def updateData_def calculateChange_def resetHistoryOnSymbolChange_def
      appendHistory_def Let_def)

subsection \<open>The sparkline\<close>











subsection \<open>Failed polls\<close>










section \<open>Properties of the server\<close>

subsection \<open>Swapping the symbol\<close>


lemma GetCoinName_unknown:
  "s \<notin> set (map fst CoinCatalog) \<Longrightarrow> GetCoinName s = s"
  by (simp add: GetCoinName_def CoinCatalog_def)



text \<open>
  Claim C2. A POST whose symbol is not in the catalogue is answered with status 400 and
  the state of the process is returned as it was: application state, processor, stored
  price, feed client and the record of calls are all unchanged.
\<close>

theorem unknown_symbol_rejected:
  assumes "s \<notin> set (map fst CoinCatalog)"
  shows "handleSymbol (Post (Some s)) w = (w, BadRequest ''Unknown symbol'')"
  using GetCoinName_unknown [OF assms] by (simp add: handleSymbol_def Let_def)

theorem unknown_symbol_rejected_witness:
  "''shibusdt'' \<notin> set (map fst CoinCatalog)
 \<and> handleSymbol (Post (Some ''shibusdt'')) world0 = (world0, BadRequest ''Unknown symbol'')"
proof -
  have a: "''shibusdt'' \<notin> set (map fst CoinCatalog)"
    by (simp add: CoinCatalog_def)
  from unknown_symbol_rejected [OF a] a show ?thesis
    by simp
qed

subsection \<open>Broadcast and failed clients\<close>








section \<open>Properties of the feed client\<close>

subsection \<open>Delays between connection attempts\<close>

lemma Run_simps [simp]:
  "Run dec [] f = f"
  "Run dec (ev # evs) f = Run dec evs (runStep dec ev f)"
  "Run dec (evs @ evs') f = Run dec evs' (Run dec evs f)"
  by (simp_all add: Run_def)

lemma dial_failure_round:
  "pc f = LoopTop \<Longrightarrow>
     Run dec [ReadSymbol, DialFails] f =
       f\<lparr>actions := actions f @ [Dial (url (b_symbol (client f))), Sleep 5]\<rparr>"
  by (simp add: runStep_def)

lemma dial_failures:
  "pc f = LoopTop \<Longrightarrow>
     Run dec (concat (replicate n [ReadSymbol, DialFails])) f =
       f\<lparr>actions := actions f @ concat (replicate n [Dial (url (b_symbol (client f))), Sleep 5])\<rparr>"
proof (induction n arbitrary: f)
  case 0
  show ?case by simp
next
  case (Suc n)
  let ?f1 = "f\<lparr>actions := actions f @ [Dial (url (b_symbol (client f))), Sleep 5]\<rparr>"
  have "Run dec (concat (replicate (Suc n) [ReadSymbol, DialFails])) f =
      Run dec (concat (replicate n [ReadSymbol, DialFails])) (Run dec [ReadSymbol, DialFails] f)"
    by simp
  also have "\<dots> = Run dec (concat (replicate n [ReadSymbol, DialFails])) ?f1"
    using Suc.prems by (simp only: dial_failure_round)
  also have "\<dots> = ?f1\<lparr>actions := actions ?f1
      @ concat (replicate n [Dial (url (b_symbol (client ?f1))), Sleep 5])\<rparr>"
    using Suc.prems by (intro Suc.IH) simp
  finally show ?case by simp
qed

text \<open>
  Claim C4, with seconds as the unit of time. A failed dial is followed by a sleep of 5
  and a return to the top of the loop, whatever happened before: any number \<open>n\<close> of
  failed attempts in a row gives \<open>n\<close> dials, each followed by a sleep of 5. When the stream
  ends while the restart channel holds a signal, the signal is taken (the channel is
  empty afterwards) and the loop goes back to the top without sleeping. When the stream
  ends and the channel is empty, the loop sleeps 2 before it goes back to the top.
\<close>

theorem reconnect_delays:
  "(pc f = Dialing u \<longrightarrow>
      runStep dec DialFails f = f\<lparr>pc := LoopTop, actions := actions f @ [Dial u, Sleep 5]\<rparr>)
 \<and> (pc f = LoopTop \<longrightarrow>
      Run dec (concat (replicate n [ReadSymbol, DialFails])) f =
        f\<lparr>actions := actions f @ concat (replicate n [Dial (url (b_symbol (client f))), Sleep 5])\<rparr>)
 \<and> (pc f = Reading \<and> b_restart (client f) \<longrightarrow>
      runStep dec (Receive ReadError) f =
        f\<lparr>client := (client f)\<lparr>b_conn := Some False, b_restart := False\<rparr>, pc := LoopTop\<rparr>)
 \<and> (pc f = Reading \<and> \<not> b_restart (client f) \<longrightarrow>
      runStep dec (Receive ReadError) f =
        f\<lparr>client := (client f)\<lparr>b_conn := Some False\<rparr>, pc := LoopTop,
          actions := actions f @ [Sleep 2]\<rparr>)"
  by (simp add: dial_failures) (simp add: runStep_def afterStream_def Let_def)

theorem reconnect_delays_witness:
  "pc dialling = Dialing (url ''btcusdt'')
 \<and> runStep tableDecoders DialFails dialling =
      feed0\<lparr>actions := [Dial (url ''btcusdt''), Sleep 5]\<rparr>
 \<and> pc feed0 = LoopTop
 \<and> Run tableDecoders [ReadSymbol, DialFails, ReadSymbol, DialFails, ReadSymbol, DialFails] feed0 =
      feed0\<lparr>actions := [Dial (url ''btcusdt''), Sleep 5, Dial (url ''btcusdt''), Sleep 5,
                           Dial (url ''btcusdt''), Sleep 5]\<rparr>
 \<and> Run tableDecoders [LockedChange ''ethusdt'', SendRestart] streaming = swapped
 \<and> pc swapped = Reading \<and> b_restart (client swapped)
 \<and> runStep tableDecoders (Receive ReadError) swapped =
      swapped\<lparr>client := \<lparr>b_symbol = ''ethusdt'', b_conn = Some False, b_restart = False\<rparr>,
        pc := LoopTop\<rparr>
 \<and> actions (runStep tableDecoders (Receive ReadError) swapped) = [Dial (url ''btcusdt'')]
 \<and> pc streaming = Reading \<and> \<not> b_restart (client streaming)
 \<and> runStep tableDecoders (Receive ReadError) streaming =
      streaming\<lparr>client := \<lparr>b_symbol = ''btcusdt'', b_conn = Some False, b_restart = False\<rparr>,
        pc := LoopTop, actions := [Dial (url ''btcusdt''), Sleep 2]\<rparr>"
proof -
  have a: "pc dialling = Dialing (url ''btcusdt'')" "pc feed0 = LoopTop"
    "pc swapped = Reading" "b_restart (client swapped)"
    "pc streaming = Reading" "\<not> b_restart (client streaming)"
    by (simp_all add: dialling_def feed0_def swapped_def streaming_def)
  have r: "concat (replicate 3 [ReadSymbol, DialFails]) =
      [ReadSymbol, DialFails, ReadSymbol, DialFails, ReadSymbol, DialFails]"
    by (simp add: numeral_3_eq_3)
  have c: "Run tableDecoders [LockedChange ''ethusdt'', SendRestart] streaming = swapped"
    by (simp add: Run_def runStep_def setSymbolAndClose_def signalRestart_def streaming_def
        swapped_def)
  from reconnect_delays [of dialling "url ''btcusdt''" tableDecoders 0] a
  have 1: "runStep tableDecoders DialFails dialling =
      feed0\<lparr>actions := [Dial (url ''btcusdt''), Sleep 5]\<rparr>"
    by (simp add: dialling_def feed0_def)
  from reconnect_delays [of feed0 "[]" tableDecoders 3] a
  have 2: "Run tableDecoders [ReadSymbol, DialFails, ReadSymbol, DialFails, ReadSymbol, DialFails] feed0 =
      feed0\<lparr>actions := [Dial (url ''btcusdt''), Sleep 5, Dial (url ''btcusdt''), Sleep 5,
                           Dial (url ''btcusdt''), Sleep 5]\<rparr>"
    unfolding r by (simp add: feed0_def numeral_3_eq_3)
  from reconnect_delays [of swapped "[]" tableDecoders 0] a
  have 3: "runStep tableDecoders (Receive ReadError) swapped =
      swapped\<lparr>client := \<lparr>b_symbol = ''ethusdt'', b_conn = Some False, b_restart = False\<rparr>,
        pc := LoopTop\<rparr>"
    by (simp add: swapped_def streaming_def)
  then have 4: "actions (runStep tableDecoders (Receive ReadError) swapped) = [Dial (url ''btcusdt'')]"
    by (simp add: swapped_def streaming_def)
  from reconnect_delays [of streaming "[]" tableDecoders 0] a
  have 5: "runStep tableDecoders (Receive ReadError) streaming =
      streaming\<lparr>client := \<lparr>b_symbol = ''btcusdt'', b_conn = Some False, b_restart = False\<rparr>,
        pc := LoopTop, actions := [Dial (url ''btcusdt''), Sleep 2]\<rparr>"
    by (simp add: streaming_def)
  from a c 1 2 3 4 5 show ?thesis
    by blast
qed


subsection \<open>Frames that yield no update\<close>

lemma readMessage_run:
  "pc f = Reading \<Longrightarrow> ReadError \<notin> set frs \<Longrightarrow>
     Run dec (map Receive frs) f = f\<lparr>priceChan := priceChan f @ updatesOf dec frs\<rparr>"
proof (induction frs arbitrary: f)
  case Nil
  show ?case by (simp add: updatesOf_def)
next
  case (Cons fr frs)
  then have s: "runStep dec (Receive fr) f = readMessage dec fr f"
    by (cases fr) (simp_all add: runStep_def)
  have p: "pc (readMessage dec fr f) = Reading"
    using Cons.prems(1) by (simp add: readMessage_def Let_def split: frame.splits)
  from Cons.prems have "ReadError \<notin> set frs" by simp
  from Cons.IH [OF p this] show ?case
    by (simp add: s) (simp add: readMessage_def updatesOf_def Let_def split: frame.splits)
qed

text \<open>
  Claim C5. While the loop is reading: a message that does not decode changes nothing,
  and neither does a trade whose price is not positive; the loop stays in
  \<open>readMessages\<close>, nothing is sent, no delay is taken. The price of a trade is 0 when
  either conversion of its price string fails and the converted value otherwise. A trade
  with a positive price sends exactly one update, with that price and with the time
  field \<open>T\<close> of the trade itself; the step has no clock to read. Over any list of frames
  without a read error the updates sent are those of the good trades, in order.
\<close>

theorem malformed_frames_dropped:
  assumes "pc f = Reading"
  shows "runStep dec (Receive Undecodable) f = f
   \<and> (parsePrice dec p \<le> 0 \<longrightarrow> runStep dec (Receive (Trade p T)) f = f)
   \<and> (parsePrice dec p > 0 \<longrightarrow>
        runStep dec (Receive (Trade p T)) f =
          f\<lparr>priceChan := priceChan f @ [\<lparr>upd_Price = parsePrice dec p, upd_Time = T\<rparr>]\<rparr>)
   \<and> (numberFloat64 dec p = None \<or> unmarshalFloat64 dec p = None \<longrightarrow> parsePrice dec p = 0)
   \<and> (\<forall>x v. numberFloat64 dec p = Some x \<and> unmarshalFloat64 dec p = Some v \<longrightarrow> parsePrice dec p = v)
   \<and> (ReadError \<notin> set frs \<longrightarrow>
        Run dec (map Receive frs) f = f\<lparr>priceChan := priceChan f @ updatesOf dec frs\<rparr>)"
  using assms readMessage_run [OF assms, of frs dec]
  by (auto simp: runStep_def readMessage_def parsePrice_def Let_def split: option.splits)

theorem malformed_frames_dropped_witness:
  "pc streaming = Reading
 \<and> runStep tableDecoders (Receive Undecodable) streaming = streaming
 \<and> parsePrice tableDecoders ''0.00'' = 0
 \<and> runStep tableDecoders (Receive (Trade ''0.00'' 1700000000001)) streaming = streaming
 \<and> parsePrice tableDecoders ''abc'' = 0
 \<and> parsePrice tableDecoders ''67000.50'' = 67000.5
 \<and> runStep tableDecoders (Receive (Trade ''67000.50'' 1700000000000)) streaming =
      streaming\<lparr>priceChan := [\<lparr>upd_Price = 67000.5, upd_Time = 1700000000000\<rparr>]\<rparr>
 \<and> Run tableDecoders (map Receive someFrames) streaming =
      streaming\<lparr>priceChan := [\<lparr>upd_Price = 67000.5, upd_Time = 1700000000000\<rparr>,
                                \<lparr>upd_Price = 67000.5, upd_Time = 1700000000004\<rparr>]\<rparr>"
proof -
  have a: "pc streaming = Reading"
    by (simp add: streaming_def)
  have t: "tableFloat ''0.00'' = Some 0" "tableFloat ''abc'' = None"
    "tableFloat ''67000.50'' = Some 67000.5" "tableFloat ''-1'' = Some (- 1)"
    by (simp_all add: tableFloat_def)
  have p: "parsePrice tableDecoders ''0.00'' = 0" "parsePrice tableDecoders ''abc'' = 0"
    "parsePrice tableDecoders ''67000.50'' = 67000.5" "parsePrice tableDecoders ''-1'' = - 1"
    by (simp_all add: parsePrice_def tableDecoders_def t)
  have n: "ReadError \<notin> set someFrames"
    by (simp add: someFrames_def)
  have u: "updatesOf tableDecoders someFrames =
      [\<lparr>upd_Price = 67000.5, upd_Time = 1700000000000\<rparr>,
       \<lparr>upd_Price = 67000.5, upd_Time = 1700000000004\<rparr>]"
    by (simp add: updatesOf_def someFrames_def p)
  have e: "priceChan streaming = []"
    by (simp add: streaming_def)
  from malformed_frames_dropped [OF a, of tableDecoders "''0.00''" 1700000000001 someFrames] p n
  have 1: "runStep tableDecoders (Receive Undecodable) streaming = streaming"
    and 2: "runStep tableDecoders (Receive (Trade ''0.00'' 1700000000001)) streaming = streaming"
    and 3: "Run tableDecoders (map Receive someFrames) streaming =
      streaming\<lparr>priceChan := priceChan streaming @ updatesOf tableDecoders someFrames\<rparr>"
    by simp_all
  from malformed_frames_dropped [OF a, of tableDecoders "''67000.50''" 1700000000000 someFrames] p
  have 4: "runStep tableDecoders (Receive (Trade ''67000.50'' 1700000000000)) streaming =
      streaming\<lparr>priceChan := priceChan streaming @ [\<lparr>upd_Price = 67000.5, upd_Time = 1700000000000\<rparr>]\<rparr>"
    by simp
  from a p 1 2 3 4 show ?thesis
    by (simp add: u e)
qed

end
